theory Spec2Isabelle
  imports Main "HOL-Library.Word" "HOL-Library.List_Lexorder" "HOL-Library.Char_ord"
    "HOL-Library.Multiset"
begin

section \<open>The wire form: client/groups/types.go\<close>

text \<open>
  A decoded JSON value, as Go's \<^verbatim>\<open>interface{}\<close> holds it after decoding. The
  fields \<^verbatim>\<open>Data\<close> and \<^verbatim>\<open>Meta\<close> of a group are maps of such values.
\<close>

datatype json =
    JNull
  | JBool bool
  | JNumber int
  | JString string
  | JArray "json list"
  | JObject "(string \<times> json) list"

text \<open>The four permission structs: every field is a plain Go \<^verbatim>\<open>bool\<close>.\<close>

record WorkspacePermissions =
  Models :: bool
  Knowledge :: bool
  Prompts :: bool
  Tools :: bool

record ChatPermissions =
  FileUpload :: bool
  Delete :: bool
  Edit :: bool
  Temporary :: bool
  Controls :: bool
  Valves :: bool
  SystemPrompt :: bool
  Params :: bool
  DeleteMessage :: bool
  ContinueResponse :: bool
  RegenerateResponse :: bool
  RateResponse :: bool
  Share :: bool
  Export :: bool
  Stt :: bool
  Tts :: bool
  Call :: bool
  MultipleModels :: bool
  TemporaryEnforced :: bool

record SharingPermissions =
  PublicModels :: bool
  PublicKnowledge :: bool
  PublicPrompts :: bool
  PublicTools :: bool
  PublicNotes :: bool

record FeaturesPermissions =
  DirectToolServers :: bool
  WebSearch :: bool
  ImageGeneration :: bool
  CodeInterpreter :: bool
  Notes :: bool

record GroupPermissions =
  Workspace :: WorkspacePermissions
  Chat :: ChatPermissions
  Sharing :: SharingPermissions
  Features :: FeaturesPermissions

text \<open>
  The group. \<^verbatim>\<open>Permissions\<close> is a pointer (\<open>None\<close> is nil), \<^verbatim>\<open>UserIDs\<close> a
  slice (\<open>None\<close> is the nil slice, \<open>Some []\<close> the empty one), \<^verbatim>\<open>Data\<close> and
  \<^verbatim>\<open>Meta\<close> maps (\<open>None\<close> is the nil map), the two time stamps are \<^verbatim>\<open>int64\<close>.
\<close>

record Group =
  ID :: string
  UserID :: string
  Name :: string
  Description :: string
  Permissions :: "GroupPermissions option"
  Data :: "(string \<times> json) list option"
  Meta :: "(string \<times> json) list option"
  UserIDs :: "string list option"
  CreatedAt :: "64 word"
  UpdatedAt :: "64 word"

text \<open>The zero value of the struct: what a composite literal leaves in the fields it does not name.\<close>

definition Group_zero :: Group where
  "Group_zero = \<lparr>ID = [], UserID = [], Name = [], Description = [], Permissions = None,
     Data = None, Meta = None, UserIDs = None, CreatedAt = 0, UpdatedAt = 0\<rparr>"

section \<open>The configuration form: the values of the plugin framework\<close>

text \<open>
  A framework value (\<^verbatim>\<open>types.String\<close>, \<^verbatim>\<open>types.Bool\<close>, \<^verbatim>\<open>types.List\<close>,
  \<^verbatim>\<open>types.Object\<close>, \<^verbatim>\<open>types.Int64\<close>) is null, unknown, or known with a value.
\<close>

datatype 'a tfvalue = Null | Unknown | Known 'a

fun IsNull :: "'a tfvalue \<Rightarrow> bool" where
  "IsNull Null = True"
| "IsNull Unknown = False"
| "IsNull (Known v) = False"

fun IsUnknown :: "'a tfvalue \<Rightarrow> bool" where
  "IsUnknown Null = False"
| "IsUnknown Unknown = True"
| "IsUnknown (Known v) = False"

text \<open>\<^verbatim>\<open>ValueString\<close> and \<^verbatim>\<open>ValueBool\<close>: the known value, the zero value otherwise.\<close>

fun ValueString :: "string tfvalue \<Rightarrow> string" where
  "ValueString (Known s) = s"
| "ValueString Null = []"
| "ValueString Unknown = []"

fun ValueBool :: "bool tfvalue \<Rightarrow> bool" where
  "ValueBool (Known b) = b"
| "ValueBool Null = False"
| "ValueBool Unknown = False"

text \<open>
  The permissions object of the schema. Its attribute types are fixed by the schema, so
  the object is a record of framework values named by the attribute paths
  (\<^verbatim>\<open>workspace.models\<close> is \<open>workspace_models\<close>); each nested object and each flag
  may still be null or unknown.
\<close>

record WorkspaceObject =
  workspace_models :: "bool tfvalue"
  workspace_knowledge :: "bool tfvalue"
  workspace_prompts :: "bool tfvalue"
  workspace_tools :: "bool tfvalue"

record ChatObject =
  chat_file_upload :: "bool tfvalue"
  chat_delete :: "bool tfvalue"
  chat_edit :: "bool tfvalue"
  chat_temporary :: "bool tfvalue"
  chat_controls :: "bool tfvalue"
  chat_valves :: "bool tfvalue"
  chat_system_prompt :: "bool tfvalue"
  chat_params :: "bool tfvalue"
  chat_delete_message :: "bool tfvalue"
  chat_continue_response :: "bool tfvalue"
  chat_regenerate_response :: "bool tfvalue"
  chat_rate_response :: "bool tfvalue"
  chat_share :: "bool tfvalue"
  chat_export :: "bool tfvalue"
  chat_stt :: "bool tfvalue"
  chat_tts :: "bool tfvalue"
  chat_call :: "bool tfvalue"
  chat_multiple_models :: "bool tfvalue"
  chat_temporary_enforced :: "bool tfvalue"

record SharingObject =
  sharing_public_models :: "bool tfvalue"
  sharing_public_knowledge :: "bool tfvalue"
  sharing_public_prompts :: "bool tfvalue"
  sharing_public_tools :: "bool tfvalue"
  sharing_public_notes :: "bool tfvalue"

record FeaturesObject =
  features_direct_tool_servers :: "bool tfvalue"
  features_web_search :: "bool tfvalue"
  features_image_generation :: "bool tfvalue"
  features_code_interpreter :: "bool tfvalue"
  features_notes :: "bool tfvalue"

record PermissionsObject =
  workspace :: "WorkspaceObject tfvalue"
  chat :: "ChatObject tfvalue"
  sharing :: "SharingObject tfvalue"
  features :: "FeaturesObject tfvalue"

text \<open>\<^verbatim>\<open>GroupResourceModel\<close> and \<^verbatim>\<open>GroupDataSourceModel\<close>, fields named by their tags.\<close>

record GroupResourceModel =
  r_id :: "string tfvalue"
  r_name :: "string tfvalue"
  r_description :: "string tfvalue"
  r_user_ids :: "string tfvalue list tfvalue"
  r_permissions :: "PermissionsObject tfvalue"

record GroupDataSourceModel =
  d_id :: "string tfvalue"
  d_name :: "string tfvalue"
  d_description :: "string tfvalue"
  d_user_ids :: "string tfvalue list tfvalue"
  d_permissions :: "PermissionsObject tfvalue"
  d_created_at :: "64 word tfvalue"
  d_updated_at :: "64 word tfvalue"


section \<open>Diagnostics and conversions of the framework\<close>

text \<open>
  A diagnostic of severity error: either one that the provider adds itself with
  \<^verbatim>\<open>AddError(summary, detail)\<close>, or one that a conversion of the framework
  (\<^verbatim>\<open>ElementsAs\<close>, \<^verbatim>\<open>As\<close>) returns. Every operation below stops at its first
  error diagnostic, so a failed operation is \<open>Inl\<close> of that diagnostic.
\<close>

datatype diagnostic =
    AddError string string
  | ConversionError

text \<open>
  \<^verbatim>\<open>types.ListValueFrom(ctx, types.StringType, ids)\<close>: a nil slice becomes the null
  list, any other slice the known list of its elements, in the order of the slice.
\<close>

fun ListValueFrom :: "string list option \<Rightarrow> string tfvalue list tfvalue" where
  "ListValueFrom None = Null"
| "ListValueFrom (Some ids) = Known (map Known ids)"

text \<open>
  \<^verbatim>\<open>list.ElementsAs(ctx, &userIDs, false)\<close> into a \<^verbatim>\<open>[]string\<close>: the null list
  leaves the nil slice; an unknown list, or a null or unknown element, is an error, as a
  Go string holds neither.
\<close>

fun IsKnownString :: "string tfvalue \<Rightarrow> bool" where
  "IsKnownString (Known s) = True"
| "IsKnownString Null = False"
| "IsKnownString Unknown = False"

fun ElementsAs :: "string tfvalue list tfvalue \<Rightarrow> diagnostic + string list option" where
  "ElementsAs Null = Inr None"
| "ElementsAs Unknown = Inl ConversionError"
| "ElementsAs (Known vs) =
     (if list_all IsKnownString vs then Inr (Some (map ValueString vs)) else Inl ConversionError)"

text \<open>
  The anonymous struct that Create and Update declare as the target of
  \<^verbatim>\<open>plan.Permissions.As\<close>: the shape of the wire structs, tagged with the attribute
  names of the schema.
\<close>

record PlanWorkspace =
  plan_Models :: bool
  plan_Knowledge :: bool
  plan_Prompts :: bool
  plan_Tools :: bool

record PlanChat =
  plan_FileUpload :: bool
  plan_Delete :: bool
  plan_Edit :: bool
  plan_Temporary :: bool
  plan_Controls :: bool
  plan_Valves :: bool
  plan_SystemPrompt :: bool
  plan_Params :: bool
  plan_DeleteMessage :: bool
  plan_ContinueResponse :: bool
  plan_RegenerateResponse :: bool
  plan_RateResponse :: bool
  plan_Share :: bool
  plan_Export :: bool
  plan_Stt :: bool
  plan_Tts :: bool
  plan_Call :: bool
  plan_MultipleModels :: bool
  plan_TemporaryEnforced :: bool

record PlanSharing =
  plan_PublicModels :: bool
  plan_PublicKnowledge :: bool
  plan_PublicPrompts :: bool
  plan_PublicTools :: bool
  plan_PublicNotes :: bool

record PlanFeatures =
  plan_DirectToolServers :: bool
  plan_WebSearch :: bool
  plan_ImageGeneration :: bool
  plan_CodeInterpreter :: bool
  plan_Notes :: bool

record PlanPermissions =
  plan_Workspace :: PlanWorkspace
  plan_Chat :: PlanChat
  plan_Sharing :: PlanSharing
  plan_Features :: PlanFeatures

text \<open>
  \<^verbatim>\<open>object.As(ctx, &permissions, basetypes.ObjectAsOptions{})\<close>: with the default
  options a null or unknown value has no place in a Go \<^verbatim>\<open>bool\<close> or in a nested
  struct, so the conversion is an error unless the object, its four nested objects and
  every flag are known. The flag is then copied by its tag.
\<close>

fun IsKnownBool :: "bool tfvalue \<Rightarrow> bool" where
  "IsKnownBool (Known b) = True"
| "IsKnownBool Null = False"
| "IsKnownBool Unknown = False"

fun As_Workspace :: "WorkspaceObject tfvalue \<Rightarrow> diagnostic + PlanWorkspace" where
  "As_Workspace (Known w) =
     (if IsKnownBool (workspace_models w) \<and> IsKnownBool (workspace_knowledge w)
         \<and> IsKnownBool (workspace_prompts w) \<and> IsKnownBool (workspace_tools w)
      then Inr \<lparr>plan_Models = ValueBool (workspace_models w),
                plan_Knowledge = ValueBool (workspace_knowledge w),
                plan_Prompts = ValueBool (workspace_prompts w),
                plan_Tools = ValueBool (workspace_tools w)\<rparr>
      else Inl ConversionError)"
| "As_Workspace Null = Inl ConversionError"
| "As_Workspace Unknown = Inl ConversionError"

fun As_Chat :: "ChatObject tfvalue \<Rightarrow> diagnostic + PlanChat" where
  "As_Chat (Known c) =
     (if IsKnownBool (chat_file_upload c) \<and> IsKnownBool (chat_delete c)
         \<and> IsKnownBool (chat_edit c) \<and> IsKnownBool (chat_temporary c)
         \<and> IsKnownBool (chat_controls c) \<and> IsKnownBool (chat_valves c)
         \<and> IsKnownBool (chat_system_prompt c) \<and> IsKnownBool (chat_params c)
         \<and> IsKnownBool (chat_delete_message c) \<and> IsKnownBool (chat_continue_response c)
         \<and> IsKnownBool (chat_regenerate_response c) \<and> IsKnownBool (chat_rate_response c)
         \<and> IsKnownBool (chat_share c) \<and> IsKnownBool (chat_export c)
         \<and> IsKnownBool (chat_stt c) \<and> IsKnownBool (chat_tts c)
         \<and> IsKnownBool (chat_call c) \<and> IsKnownBool (chat_multiple_models c)
         \<and> IsKnownBool (chat_temporary_enforced c)
      then Inr \<lparr>plan_FileUpload = ValueBool (chat_file_upload c),
                plan_Delete = ValueBool (chat_delete c),
                plan_Edit = ValueBool (chat_edit c),
                plan_Temporary = ValueBool (chat_temporary c),
                plan_Controls = ValueBool (chat_controls c),
                plan_Valves = ValueBool (chat_valves c),
                plan_SystemPrompt = ValueBool (chat_system_prompt c),
                plan_Params = ValueBool (chat_params c),
                plan_DeleteMessage = ValueBool (chat_delete_message c),
                plan_ContinueResponse = ValueBool (chat_continue_response c),
                plan_RegenerateResponse = ValueBool (chat_regenerate_response c),
                plan_RateResponse = ValueBool (chat_rate_response c),
                plan_Share = ValueBool (chat_share c),
                plan_Export = ValueBool (chat_export c),
                plan_Stt = ValueBool (chat_stt c),
                plan_Tts = ValueBool (chat_tts c),
                plan_Call = ValueBool (chat_call c),
                plan_MultipleModels = ValueBool (chat_multiple_models c),
                plan_TemporaryEnforced = ValueBool (chat_temporary_enforced c)\<rparr>
      else Inl ConversionError)"
| "As_Chat Null = Inl ConversionError"
| "As_Chat Unknown = Inl ConversionError"

fun As_Sharing :: "SharingObject tfvalue \<Rightarrow> diagnostic + PlanSharing" where
  "As_Sharing (Known s) =
     (if IsKnownBool (sharing_public_models s) \<and> IsKnownBool (sharing_public_knowledge s)
         \<and> IsKnownBool (sharing_public_prompts s) \<and> IsKnownBool (sharing_public_tools s)
         \<and> IsKnownBool (sharing_public_notes s)
      then Inr \<lparr>plan_PublicModels = ValueBool (sharing_public_models s),
                plan_PublicKnowledge = ValueBool (sharing_public_knowledge s),
                plan_PublicPrompts = ValueBool (sharing_public_prompts s),
                plan_PublicTools = ValueBool (sharing_public_tools s),
                plan_PublicNotes = ValueBool (sharing_public_notes s)\<rparr>
      else Inl ConversionError)"
| "As_Sharing Null = Inl ConversionError"
| "As_Sharing Unknown = Inl ConversionError"

fun As_Features :: "FeaturesObject tfvalue \<Rightarrow> diagnostic + PlanFeatures" where
  "As_Features (Known f) =
     (if IsKnownBool (features_direct_tool_servers f) \<and> IsKnownBool (features_web_search f)
         \<and> IsKnownBool (features_image_generation f) \<and> IsKnownBool (features_code_interpreter f)
         \<and> IsKnownBool (features_notes f)
      then Inr \<lparr>plan_DirectToolServers = ValueBool (features_direct_tool_servers f),
                plan_WebSearch = ValueBool (features_web_search f),
                plan_ImageGeneration = ValueBool (features_image_generation f),
                plan_CodeInterpreter = ValueBool (features_code_interpreter f),
                plan_Notes = ValueBool (features_notes f)\<rparr>
      else Inl ConversionError)"
| "As_Features Null = Inl ConversionError"
| "As_Features Unknown = Inl ConversionError"

fun As :: "PermissionsObject tfvalue \<Rightarrow> diagnostic + PlanPermissions" where
  "As (Known p) =
     (case As_Workspace (workspace p) of Inl d \<Rightarrow> Inl d | Inr w \<Rightarrow>
       (case As_Chat (chat p) of Inl d \<Rightarrow> Inl d | Inr c \<Rightarrow>
         (case As_Sharing (sharing p) of Inl d \<Rightarrow> Inl d | Inr s \<Rightarrow>
           (case As_Features (features p) of Inl d \<Rightarrow> Inl d | Inr f \<Rightarrow>
              Inr \<lparr>plan_Workspace = w, plan_Chat = c, plan_Sharing = s, plan_Features = f\<rparr>))))"
| "As Null = Inl ConversionError"
| "As Unknown = Inl ConversionError"


section \<open>The permission mapper\<close>

text \<open>
  Configuration to wire: the composite literal \<^verbatim>\<open>&groups.GroupPermissions{...}\<close> of
  Create and Update (the two functions carry the same text), one field after the other.
\<close>

definition toWire :: "PlanPermissions \<Rightarrow> GroupPermissions" where
  "toWire permissions =
     \<lparr>Workspace =
        \<lparr>Models = plan_Models (plan_Workspace permissions),
         Knowledge = plan_Knowledge (plan_Workspace permissions),
         Prompts = plan_Prompts (plan_Workspace permissions),
         Tools = plan_Tools (plan_Workspace permissions)\<rparr>,
      Chat =
        \<lparr>FileUpload = plan_FileUpload (plan_Chat permissions),
         Delete = plan_Delete (plan_Chat permissions),
         Edit = plan_Edit (plan_Chat permissions),
         Temporary = plan_Temporary (plan_Chat permissions),
         Controls = plan_Controls (plan_Chat permissions),
         Valves = plan_Valves (plan_Chat permissions),
         SystemPrompt = plan_SystemPrompt (plan_Chat permissions),
         Params = plan_Params (plan_Chat permissions),
         DeleteMessage = plan_DeleteMessage (plan_Chat permissions),
         ContinueResponse = plan_ContinueResponse (plan_Chat permissions),
         RegenerateResponse = plan_RegenerateResponse (plan_Chat permissions),
         RateResponse = plan_RateResponse (plan_Chat permissions),
         Share = plan_Share (plan_Chat permissions),
         Export = plan_Export (plan_Chat permissions),
         Stt = plan_Stt (plan_Chat permissions),
         Tts = plan_Tts (plan_Chat permissions),
         Call = plan_Call (plan_Chat permissions),
         MultipleModels = plan_MultipleModels (plan_Chat permissions),
         TemporaryEnforced = plan_TemporaryEnforced (plan_Chat permissions)\<rparr>,
      Sharing =
        \<lparr>PublicModels = plan_PublicModels (plan_Sharing permissions),
         PublicKnowledge = plan_PublicKnowledge (plan_Sharing permissions),
         PublicPrompts = plan_PublicPrompts (plan_Sharing permissions),
         PublicTools = plan_PublicTools (plan_Sharing permissions),
         PublicNotes = plan_PublicNotes (plan_Sharing permissions)\<rparr>,
      Features =
        \<lparr>DirectToolServers = plan_DirectToolServers (plan_Features permissions),
         WebSearch = plan_WebSearch (plan_Features permissions),
         ImageGeneration = plan_ImageGeneration (plan_Features permissions),
         CodeInterpreter = plan_CodeInterpreter (plan_Features permissions),
         Notes = plan_Notes (plan_Features permissions)\<rparr>\<rparr>"

text \<open>
  The block \<^verbatim>\<open>if !plan.Permissions.IsNull() { ... }\<close> of Create and Update: what it
  leaves in the \<^verbatim>\<open>Permissions\<close> field of the payload (nil when the block is skipped),
  or the error of the conversion.
\<close>

definition plan_Permissions :: "PermissionsObject tfvalue \<Rightarrow> diagnostic + GroupPermissions option" where
  "plan_Permissions p =
     (if \<not> IsNull p
      then (case As p of Inl d \<Rightarrow> Inl d | Inr permissions \<Rightarrow> Inr (Some (toWire permissions)))
      else Inr None)"

text \<open>
  Wire to configuration: the objects that Read builds with \<^verbatim>\<open>types.ObjectValue\<close> from
  \<^verbatim>\<open>types.BoolValue\<close> of each field (the resource and the data source carry the same
  text). The attribute types and the attribute values handed to \<^verbatim>\<open>ObjectValue\<close> are
  literals with the same keys, so its diagnostics are empty and the object is known.
\<close>

definition toConfig :: "GroupPermissions \<Rightarrow> PermissionsObject" where
  "toConfig permissions =
     \<lparr>workspace = Known
        \<lparr>workspace_models = Known (Models (Workspace permissions)),
         workspace_knowledge = Known (Knowledge (Workspace permissions)),
         workspace_prompts = Known (Prompts (Workspace permissions)),
         workspace_tools = Known (Tools (Workspace permissions))\<rparr>,
      chat = Known
        \<lparr>chat_file_upload = Known (FileUpload (Chat permissions)),
         chat_delete = Known (Delete (Chat permissions)),
         chat_edit = Known (Edit (Chat permissions)),
         chat_temporary = Known (Temporary (Chat permissions)),
         chat_controls = Known (Controls (Chat permissions)),
         chat_valves = Known (Valves (Chat permissions)),
         chat_system_prompt = Known (SystemPrompt (Chat permissions)),
         chat_params = Known (Params (Chat permissions)),
         chat_delete_message = Known (DeleteMessage (Chat permissions)),
         chat_continue_response = Known (ContinueResponse (Chat permissions)),
         chat_regenerate_response = Known (RegenerateResponse (Chat permissions)),
         chat_rate_response = Known (RateResponse (Chat permissions)),
         chat_share = Known (Share (Chat permissions)),
         chat_export = Known (Export (Chat permissions)),
         chat_stt = Known (Stt (Chat permissions)),
         chat_tts = Known (Tts (Chat permissions)),
         chat_call = Known (Call (Chat permissions)),
         chat_multiple_models = Known (MultipleModels (Chat permissions)),
         chat_temporary_enforced = Known (TemporaryEnforced (Chat permissions))\<rparr>,
      sharing = Known
        \<lparr>sharing_public_models = Known (PublicModels (Sharing permissions)),
         sharing_public_knowledge = Known (PublicKnowledge (Sharing permissions)),
         sharing_public_prompts = Known (PublicPrompts (Sharing permissions)),
         sharing_public_tools = Known (PublicTools (Sharing permissions)),
         sharing_public_notes = Known (PublicNotes (Sharing permissions))\<rparr>,
      features = Known
        \<lparr>features_direct_tool_servers = Known (DirectToolServers (Features permissions)),
         features_web_search = Known (WebSearch (Features permissions)),
         features_image_generation = Known (ImageGeneration (Features permissions)),
         features_code_interpreter = Known (CodeInterpreter (Features permissions)),
         features_notes = Known (Notes (Features permissions))\<rparr>\<rparr>"


section \<open>The remote client\<close>

text \<open>
  Modelled from the spec: the errors of the client. The client itself
  (\<^verbatim>\<open>groups.Client\<close>) is not among the sources, only its types are; the provider
  reads an error only through \<^verbatim>\<open>%s\<close>, that is through its message. The spec's
  taxonomy tells a not-found error from the other errors of the transport; both carry
  their message.
\<close>

datatype client_error = NotFound string | TransportError string

fun ErrorString :: "client_error \<Rightarrow> string" where
  "ErrorString (NotFound msg) = msg"
| "ErrorString (TransportError msg) = msg"

text \<open>
  Modelled from the spec: the five calls of the client, each a function of the state
  \<open>'s\<close> of the remote system that answers and gives the state after the call. They are
  parameters of every operation: nothing is assumed about the remote system.
\<close>

record 's Client =
  remote_Create :: "Group \<Rightarrow> 's \<Rightarrow> (client_error + Group) \<times> 's"
  remote_Update :: "string \<Rightarrow> Group \<Rightarrow> 's \<Rightarrow> (client_error + Group) \<times> 's"
  remote_Get :: "string \<Rightarrow> 's \<Rightarrow> (client_error + Group) \<times> 's"
  remote_List :: "'s \<Rightarrow> (client_error + Group list) \<times> 's"
  remote_Delete :: "string \<Rightarrow> 's \<Rightarrow> client_error option \<times> 's"

text \<open>
  The calls that an operation issues are recorded, in order, beside the remote state:
  the payload of a call is what the provider passed to the client.
\<close>

datatype call =
    CallCreate Group
  | CallUpdate string Group
  | CallGet string
  | CallList
  | CallDelete string

type_synonym 's world = "'s \<times> call list"

definition client_Create :: "'s Client \<Rightarrow> Group \<Rightarrow> 's world \<Rightarrow> (client_error + Group) \<times> 's world" where
  "client_Create c g w =
     (case remote_Create c g (fst w) of (r, s') \<Rightarrow> (r, (s', snd w @ [CallCreate g])))"

definition client_Update :: "'s Client \<Rightarrow> string \<Rightarrow> Group \<Rightarrow> 's world \<Rightarrow> (client_error + Group) \<times> 's world" where
  "client_Update c i g w =
     (case remote_Update c i g (fst w) of (r, s') \<Rightarrow> (r, (s', snd w @ [CallUpdate i g])))"

definition client_Get :: "'s Client \<Rightarrow> string \<Rightarrow> 's world \<Rightarrow> (client_error + Group) \<times> 's world" where
  "client_Get c i w =
     (case remote_Get c i (fst w) of (r, s') \<Rightarrow> (r, (s', snd w @ [CallGet i])))"

definition client_List :: "'s Client \<Rightarrow> 's world \<Rightarrow> (client_error + Group list) \<times> 's world" where
  "client_List c w =
     (case remote_List c (fst w) of (r, s') \<Rightarrow> (r, (s', snd w @ [CallList])))"

definition client_Delete :: "'s Client \<Rightarrow> string \<Rightarrow> 's world \<Rightarrow> client_error option \<times> 's world" where
  "client_Delete c i w =
     (case remote_Delete c i (fst w) of (r, s') \<Rightarrow> (r, (s', snd w @ [CallDelete i])))"

section \<open>The resource: Create, Read, Update, Delete\<close>

text \<open>
  Each operation takes the model that the framework decoded from the plan or the prior
  state, and gives either the first error diagnostic (the state of the response is then
  not set) or the model handed to \<^verbatim>\<open>resp.State.Set\<close>.
\<close>

definition Create :: "'s Client \<Rightarrow> GroupResourceModel \<Rightarrow> 's world
    \<Rightarrow> (diagnostic + GroupResourceModel) \<times> 's world" where
  "Create c plan w =
     (let createGroup = Group_zero\<lparr>Name := ValueString (r_name plan),
                                   Description := ValueString (r_description plan)\<rparr> in
      case client_Create c createGroup w of
        (Inl err, w1) \<Rightarrow>
          (Inl (AddError ''Error creating group''
                  (''Could not create group: '' @ ErrorString err)), w1)
      | (Inr createdGroup, w1) \<Rightarrow>
          (case ElementsAs (r_user_ids plan) of
             Inl d \<Rightarrow> (Inl d, w1)
           | Inr userIDs \<Rightarrow>
               (case plan_Permissions (r_permissions plan) of
                  Inl d \<Rightarrow> (Inl d, w1)
                | Inr permissions \<Rightarrow>
                    (let updateGroup = Group_zero\<lparr>Name := ValueString (r_name plan),
                                                   Description := ValueString (r_description plan),
                                                   UserIDs := userIDs,
                                                   Permissions := permissions\<rparr> in
                     case client_Update c (ID createdGroup) updateGroup w1 of
                       (Inl err, w2) \<Rightarrow>
                         (Inl (AddError ''Error updating group''
                                 (''Could not update group with ID '' @ ID createdGroup
                                    @ '': '' @ ErrorString err)), w2)
                     | (Inr updatedGroup, w2) \<Rightarrow>
                         (Inr (plan\<lparr>r_id := Known (ID updatedGroup)\<rparr>), w2)))))"

text \<open>\<^verbatim>\<open>sort.Strings\<close> on the slice of the group: ascending in the byte order of Go strings.\<close>

definition sort_Strings :: "string list option \<Rightarrow> string list option" where
  "sort_Strings ids = map_option sort ids"

definition Read :: "'s Client \<Rightarrow> GroupResourceModel \<Rightarrow> 's world
    \<Rightarrow> (diagnostic + GroupResourceModel) \<times> 's world" where
  "Read c state w =
     (case client_Get c (ValueString (r_id state)) w of
        (Inl err, w1) \<Rightarrow>
          (Inl (AddError ''Error reading group''
                  (''Could not read group ID '' @ ValueString (r_id state)
                     @ '': '' @ ErrorString err)), w1)
      | (Inr grp, w1) \<Rightarrow>
          (let state1 = state\<lparr>r_name := Known (Name grp),
                               r_description := Known (Description grp)\<rparr>;
               state2 = state1\<lparr>r_user_ids := ListValueFrom (sort_Strings (UserIDs grp))\<rparr>;
               state3 = (case Permissions grp of
                           Some permissions \<Rightarrow> state2\<lparr>r_permissions := Known (toConfig permissions)\<rparr>
                         | None \<Rightarrow> state2)
           in (Inr state3, w1)))"

definition Update :: "'s Client \<Rightarrow> GroupResourceModel \<Rightarrow> 's world
    \<Rightarrow> (diagnostic + GroupResourceModel) \<times> 's world" where
  "Update c plan w =
     (case ElementsAs (r_user_ids plan) of
        Inl d \<Rightarrow> (Inl d, w)
      | Inr userIDs \<Rightarrow>
          (case plan_Permissions (r_permissions plan) of
             Inl d \<Rightarrow> (Inl d, w)
           | Inr permissions \<Rightarrow>
               (let grp = Group_zero\<lparr>Name := ValueString (r_name plan),
                                        Description := ValueString (r_description plan),
                                        UserIDs := userIDs,
                                        Permissions := permissions\<rparr> in
                case client_Update c (ValueString (r_id plan)) grp w of
                  (Inl err, w1) \<Rightarrow>
                    (Inl (AddError ''Error updating group''
                            (''Could not update group ID '' @ ValueString (r_id plan)
                               @ '': '' @ ErrorString err)), w1)
                | (Inr updatedGroup, w1) \<Rightarrow>
                    (Inr (plan\<lparr>r_id := Known (ID updatedGroup)\<rparr>), w1))))"

definition Delete_group :: "'s Client \<Rightarrow> GroupResourceModel \<Rightarrow> 's world
    \<Rightarrow> diagnostic option \<times> 's world" where
  "Delete_group c state w =
     (case client_Delete c (ValueString (r_id state)) w of
        (Some err, w1) \<Rightarrow>
          (Some (AddError ''Error deleting group''
                   (''Could not delete group ID '' @ ValueString (r_id state)
                      @ '': '' @ ErrorString err)), w1)
      | (None, w1) \<Rightarrow> (None, w1))"

section \<open>The data source: lookup by name\<close>

text \<open>
  The body of the loop at a group whose name is the queried one: the fields of the
  group are copied into the model; the user IDs go through \<^verbatim>\<open>ListValueFrom\<close> as the
  client returned them.
\<close>

definition fill_model :: "GroupDataSourceModel \<Rightarrow> Group \<Rightarrow> GroupDataSourceModel" where
  "fill_model data grp =
     (let data1 = data\<lparr>d_id := Known (ID grp),
                        d_description := Known (Description grp),
                        d_created_at := Known (CreatedAt grp),
                        d_updated_at := Known (UpdatedAt grp)\<rparr>;
          data2 = data1\<lparr>d_user_ids := ListValueFrom (UserIDs grp)\<rparr>;
          data3 = (case Permissions grp of
                     Some permissions \<Rightarrow> data2\<lparr>d_permissions := Known (toConfig permissions)\<rparr>
                   | None \<Rightarrow> data2)
      in data3)"

text \<open>
  The loop over the listed groups: at the first group whose name is the queried one the
  model is filled and the loop is left (\<open>found\<close> is then true, here \<open>Some\<close>); the end
  of the list leaves \<open>found\<close> false (\<open>None\<close>).
\<close>

fun find_group :: "string \<Rightarrow> GroupDataSourceModel \<Rightarrow> Group list \<Rightarrow> GroupDataSourceModel option" where
  "find_group n data [] = None"
| "find_group n data (grp # groups) =
     (if Name grp = n then Some (fill_model data grp) else find_group n data groups)"

definition DataSource_Read :: "'s Client \<Rightarrow> GroupDataSourceModel \<Rightarrow> 's world
    \<Rightarrow> (diagnostic + GroupDataSourceModel) \<times> 's world" where
  "DataSource_Read c data w =
     (case client_List c w of
        (Inl err, w1) \<Rightarrow>
          (Inl (AddError ''Client Error''
                  (''Unable to read groups, got error: '' @ ErrorString err)), w1)
      | (Inr groups, w1) \<Rightarrow>
          (case find_group (ValueString (d_name data)) data groups of
             None \<Rightarrow>
               (Inl (AddError ''Group Not Found''
                       (''No group found with name: '' @ ValueString (d_name data))), w1)
           | Some data' \<Rightarrow> (Inr data', w1)))"


section \<open>Decoding a permissions object\<close>

















section \<open>Properties named by the specification\<close>

text \<open>
  A permissions object in which everything is present: the four nested objects and the
  33 flags are known.
\<close>

definition flags_present :: "PermissionsObject \<Rightarrow> bool" where
  "flags_present p =
     ((case workspace p of
         Known w \<Rightarrow> IsKnownBool (workspace_models w) \<and> IsKnownBool (workspace_knowledge w)
           \<and> IsKnownBool (workspace_prompts w) \<and> IsKnownBool (workspace_tools w)
       | Null \<Rightarrow> False | Unknown \<Rightarrow> False)
    \<and> (case chat p of
         Known c \<Rightarrow> IsKnownBool (chat_file_upload c) \<and> IsKnownBool (chat_delete c)
           \<and> IsKnownBool (chat_edit c) \<and> IsKnownBool (chat_temporary c)
           \<and> IsKnownBool (chat_controls c) \<and> IsKnownBool (chat_valves c)
           \<and> IsKnownBool (chat_system_prompt c) \<and> IsKnownBool (chat_params c)
           \<and> IsKnownBool (chat_delete_message c) \<and> IsKnownBool (chat_continue_response c)
           \<and> IsKnownBool (chat_regenerate_response c) \<and> IsKnownBool (chat_rate_response c)
           \<and> IsKnownBool (chat_share c) \<and> IsKnownBool (chat_export c)
           \<and> IsKnownBool (chat_stt c) \<and> IsKnownBool (chat_tts c)
           \<and> IsKnownBool (chat_call c) \<and> IsKnownBool (chat_multiple_models c)
           \<and> IsKnownBool (chat_temporary_enforced c)
       | Null \<Rightarrow> False | Unknown \<Rightarrow> False)
    \<and> (case sharing p of
         Known s \<Rightarrow> IsKnownBool (sharing_public_models s) \<and> IsKnownBool (sharing_public_knowledge s)
           \<and> IsKnownBool (sharing_public_prompts s) \<and> IsKnownBool (sharing_public_tools s)
           \<and> IsKnownBool (sharing_public_notes s)
       | Null \<Rightarrow> False | Unknown \<Rightarrow> False)
    \<and> (case features p of
         Known f \<Rightarrow> IsKnownBool (features_direct_tool_servers f) \<and> IsKnownBool (features_web_search f)
           \<and> IsKnownBool (features_image_generation f) \<and> IsKnownBool (features_code_interpreter f)
           \<and> IsKnownBool (features_notes f)
       | Null \<Rightarrow> False | Unknown \<Rightarrow> False))"

text \<open>The group that a call carries as its payload, if it carries one.\<close>

fun payload :: "call \<Rightarrow> Group option" where
  "payload (CallCreate g) = Some g"
| "payload (CallUpdate i g) = Some g"
| "payload (CallGet i) = None"
| "payload CallList = None"
| "payload (CallDelete i) = None"

text \<open>A call whose payload, if it has one, carries no permissions object.\<close>

definition no_Permissions :: "call \<Rightarrow> bool" where
  "no_Permissions k = (case payload k of None \<Rightarrow> True | Some g \<Rightarrow> Permissions g = None)"

section \<open>Concrete inputs\<close>

text \<open>A remote that gives a fixed answer to each call and has no state of its own.\<close>

definition fixed_Client :: "(client_error + Group) \<Rightarrow> (client_error + Group)
    \<Rightarrow> (client_error + Group) \<Rightarrow> (client_error + Group list) \<Rightarrow> unit Client" where
  "fixed_Client created updated got listed =
     \<lparr>remote_Create = (\<lambda>g s. (created, s)),
      remote_Update = (\<lambda>i g s. (updated, s)),
      remote_Get = (\<lambda>i s. (got, s)),
      remote_List = (\<lambda>s. (listed, s)),
      remote_Delete = (\<lambda>i s. (None, s))\<rparr>"

definition some_Chat :: ChatPermissions where
  "some_Chat =
     \<lparr>FileUpload = True, Delete = False, Edit = True, Temporary = False, Controls = True,
      Valves = False, SystemPrompt = True, Params = False, DeleteMessage = True,
      ContinueResponse = False, RegenerateResponse = True, RateResponse = False,
      Share = True, Export = False, Stt = True, Tts = False, Call = True,
      MultipleModels = False, TemporaryEnforced = True\<rparr>"

definition some_Sharing :: SharingPermissions where
  "some_Sharing =
     \<lparr>PublicModels = True, PublicKnowledge = False, PublicPrompts = True,
      PublicTools = False, PublicNotes = True\<rparr>"

definition some_Features :: FeaturesPermissions where
  "some_Features =
     \<lparr>DirectToolServers = False, WebSearch = True, ImageGeneration = False,
      CodeInterpreter = True, Notes = False\<rparr>"

definition some_Permissions :: GroupPermissions where
  "some_Permissions =
     \<lparr>Workspace = \<lparr>Models = True, Knowledge = False, Prompts = True, Tools = True\<rparr>,
      Chat = some_Chat, Sharing = some_Sharing, Features = some_Features\<rparr>"

definition some_plan :: GroupResourceModel where
  "some_plan =
     \<lparr>r_id = Unknown, r_name = Known ''eng'', r_description = Known ''engineering'',
      r_user_ids = Known [Known ''u2'', Known ''u1''],
      r_permissions = Known (toConfig some_Permissions)\<rparr>"

definition some_Group :: Group where
  "some_Group =
     \<lparr>ID = ''g1'', UserID = ''admin'', Name = ''eng'', Description = ''engineering'',
      Permissions = Some some_Permissions, Data = None, Meta = None,
      UserIDs = Some [''b'', ''a''], CreatedAt = 100, UpdatedAt = 200\<rparr>"

definition some_query :: GroupDataSourceModel where
  "some_query =
     \<lparr>d_id = Null, d_name = Known ''ops'', d_description = Null, d_user_ids = Null,
      d_permissions = Null, d_created_at = Null, d_updated_at = Null\<rparr>"


definition group_without_permissions :: Group where
  "group_without_permissions = some_Group\<lparr>Permissions := None\<rparr>"

definition ops_Group :: Group where
  "ops_Group = some_Group\<lparr>ID := ''g2'', Name := ''ops'', Permissions := None,
     UserIDs := Some [''b'', ''a'', ''b'']\<rparr>"

definition stale_state :: GroupResourceModel where
  "stale_state =
     \<lparr>r_id = Known ''g1'', r_name = Known ''eng'', r_description = Known ''engineering'',
      r_user_ids = Known [Known ''a'', Known ''b''],
      r_permissions = Known (toConfig some_Permissions)\<rparr>"

definition null_plan :: GroupResourceModel where
  "null_plan =
     \<lparr>r_id = Known ''g1'', r_name = Known ''eng'', r_description = Null,
      r_user_ids = Null, r_permissions = Null\<rparr>"

definition plan_with_null_member :: GroupResourceModel where
  "plan_with_null_member = some_plan\<lparr>r_id := Known ''g1'', r_user_ids := Known [Known ''u1'', Null]\<rparr>"

definition ops_with_permissions :: Group where
  "ops_with_permissions = ops_Group\<lparr>Permissions := Some some_Permissions\<rparr>"

definition all_flags :: "string list \<Rightarrow> json" where
  "all_flags tags = JObject (map (\<lambda>k. (k, JBool True)) tags)"



section \<open>The permission mapper is lossless\<close>

lemma Known_ValueBool: "IsKnownBool x \<Longrightarrow> Known (ValueBool x) = x"
  by (cases x) simp_all

lemma plan_Permissions_toConfig: "plan_Permissions (Known (toConfig W)) = Inr (Some W)"
  by (simp add: plan_Permissions_def toConfig_def toWire_def)

lemma flags_present_toConfig: "flags_present (toConfig W)"
  by (simp add: flags_present_def toConfig_def)

lemma flags_present_As:
  assumes "flags_present P"
  shows "\<exists>s. As (Known P) = Inr s \<and> toConfig (toWire s) = P"
proof -
  obtain w c s f where nested:
    "workspace P = Known w" "chat P = Known c" "sharing P = Known s" "features P = Known f"
    using assms by (auto simp add: flags_present_def split: tfvalue.splits)
  have "toConfig (toWire (case As (Known P) of Inr s \<Rightarrow> s)) = P"
    using assms nested by (simp add: flags_present_def toConfig_def toWire_def Known_ValueBool)
  moreover have "\<exists>s. As (Known P) = Inr s"
    using assms nested by (simp add: flags_present_def)
  ultimately show ?thesis by auto
qed

lemma flags_present_plan_Permissions:
  "flags_present P \<Longrightarrow> \<exists>W. plan_Permissions (Known P) = Inr (Some W) \<and> toConfig W = P"
  using flags_present_As [of P] by (auto simp add: plan_Permissions_def)

text \<open>
  Claim C1. For every permissions object \<open>P\<close> of the configuration in which all 33 flags
  are present, the conversion of Create and Update succeeds with a wire object, and the
  conversion of Read takes that wire object back to \<open>P\<close>. In the other direction, for
  every wire object \<open>W\<close> the conversion of Read gives an object with all flags present,
  which the conversion of Create and Update takes back to \<open>W\<close>.
\<close>

theorem permissions_round_trip:
  "(flags_present P \<longrightarrow> (\<exists>W. plan_Permissions (Known P) = Inr (Some W) \<and> toConfig W = P))
   \<and> flags_present (toConfig W')
   \<and> plan_Permissions (Known (toConfig W')) = Inr (Some W')"
  by (simp add: flags_present_plan_Permissions plan_Permissions_toConfig flags_present_toConfig)

theorem permissions_round_trip_witness:
  "flags_present (toConfig some_Permissions)
   \<and> (\<exists>W. plan_Permissions (Known (toConfig some_Permissions)) = Inr (Some W)
          \<and> toConfig W = toConfig some_Permissions)"
  using permissions_round_trip [of "toConfig some_Permissions" some_Permissions]
  by (simp add: flags_present_def toConfig_def)

section \<open>What the operations do with the answers of the remote\<close>

lemma Read_got:
  "remote_Get c (ValueString (r_id state)) s = (Inr g, s')
   \<Longrightarrow> Read c state (s, log) =
        (Inr (let state2 = state\<lparr>r_name := Known (Name g), r_description := Known (Description g),
                                 r_user_ids := ListValueFrom (sort_Strings (UserIDs g))\<rparr>
              in case Permissions g of Some p \<Rightarrow> state2\<lparr>r_permissions := Known (toConfig p)\<rparr>
                 | None \<Rightarrow> state2),
         (s', log @ [CallGet (ValueString (r_id state))]))"
  by (simp add: Read_def client_Get_def Let_def)

lemma find_group_find:
  "find_group n data gs = map_option (fill_model data) (find (\<lambda>g. Name g = n) gs)"
  by (induction gs) simp_all

lemma DataSource_Read_listed:
  "remote_List c s = (Inr gs, s')
   \<Longrightarrow> DataSource_Read c data (s, log) =
        ((case find (\<lambda>g. Name g = ValueString (d_name data)) gs of
            None \<Rightarrow> Inl (AddError ''Group Not Found''
                          (''No group found with name: '' @ ValueString (d_name data)))
          | Some g \<Rightarrow> Inr (fill_model data g)),
         (s', log @ [CallList]))"
  by (simp add: DataSource_Read_def client_List_def find_group_find split: option.splits)

lemma ElementsAs_Known: "ElementsAs (Known (map Known ids)) = Inr (Some ids)"
  by (induction ids) (simp_all split: if_splits)

lemma Update_calls:
  "ElementsAs (r_user_ids plan) = Inr userIDs
   \<Longrightarrow> plan_Permissions (r_permissions plan) = Inr permissions
   \<Longrightarrow> snd (snd (Update c plan (s, log))) =
           log @ [CallUpdate (ValueString (r_id plan))
                   (Group_zero\<lparr>Name := ValueString (r_name plan),
                               Description := ValueString (r_description plan),
                               UserIDs := userIDs, Permissions := permissions\<rparr>)]"
  by (simp add: Update_def client_Update_def Let_def split: prod.splits sum.splits)

lemma Create_null_calls:
  "r_permissions plan = Null \<Longrightarrow> list_all no_Permissions (snd (snd (Create c plan (s, []))))"
  by (simp add: Create_def client_Create_def client_Update_def Let_def plan_Permissions_def
      no_Permissions_def Group_zero_def split: prod.splits sum.splits)

lemma Update_null_calls:
  "r_permissions plan = Null \<Longrightarrow> list_all no_Permissions (snd (snd (Update c plan (s, []))))"
  by (simp add: Update_def client_Update_def Let_def plan_Permissions_def
      no_Permissions_def Group_zero_def split: prod.splits sum.splits)

lemma Create_Inr:
  "fst (Create c plan w) = Inr st \<Longrightarrow>
      \<exists>i g s1 updated s2. remote_Update c i g s1 = (Inr updated, s2)
          \<and> st = plan\<lparr>r_id := Known (ID updated)\<rparr>"
  by (simp add: Create_def client_Create_def client_Update_def Let_def
      split: prod.splits sum.splits) blast

lemma Update_Inr:
  "fst (Update c plan w) = Inr st \<Longrightarrow>
      \<exists>i g s1 updated s2. remote_Update c i g s1 = (Inr updated, s2)
          \<and> st = plan\<lparr>r_id := Known (ID updated)\<rparr>"
  by (simp add: Update_def client_Update_def Let_def
      split: prod.splits sum.splits) blast

lemmas example_defs =
  fixed_Client_def some_Group_def some_plan_def some_query_def ops_Group_def
  group_without_permissions_def stale_state_def null_plan_def Group_zero_def

lemmas operation_defs =
  Create_def Read_def Update_def DataSource_Read_def fill_model_def sort_Strings_def
  client_Create_def client_Update_def client_Get_def client_List_def

section \<open>Null permissions\<close>

text \<open>
  Claim C2, as amended. A null permissions field of the plan puts no permissions object
  into any payload of Create and Update. When the group that the remote returns has no
  permissions, Read (of the resource and of the data source) does not write the
  permissions field: it keeps the value of the model that Read started from, the prior
  state for the resource and the configuration for the data source, so it is null
  whenever it was null there, and no all-false object is built.
\<close>

theorem null_propagation:
  "plan_Permissions Null = Inr None
   \<and> (r_permissions plan = Null \<longrightarrow>
        list_all no_Permissions (snd (snd (Create c plan (s, []))))
        \<and> list_all no_Permissions (snd (snd (Update c plan (s, [])))))
   \<and> (remote_Get c (ValueString (r_id state)) s = (Inr g, s') \<and> Permissions g = None \<longrightarrow>
        (\<exists>st. fst (Read c state (s, log)) = Inr st \<and> r_permissions st = r_permissions state))
   \<and> (remote_List c s = (Inr gs, s'') \<and> find (\<lambda>g. Name g = ValueString (d_name data)) gs = Some h
        \<and> Permissions h = None \<longrightarrow>
        (\<exists>d. fst (DataSource_Read c data (s, log)) = Inr d \<and> d_permissions d = d_permissions data))"
proof -
  have "plan_Permissions Null = Inr None"
    by (simp add: plan_Permissions_def)
  moreover have "r_permissions plan = Null \<longrightarrow>
        list_all no_Permissions (snd (snd (Create c plan (s, []))))
        \<and> list_all no_Permissions (snd (snd (Update c plan (s, []))))"
    by (simp add: Create_null_calls Update_null_calls)
  moreover have "remote_Get c (ValueString (r_id state)) s = (Inr g, s') \<and> Permissions g = None \<longrightarrow>
        (\<exists>st. fst (Read c state (s, log)) = Inr st \<and> r_permissions st = r_permissions state)"
    by (simp add: Read_got)
  moreover have "remote_List c s = (Inr gs, s'') \<and> find (\<lambda>g. Name g = ValueString (d_name data)) gs = Some h
        \<and> Permissions h = None \<longrightarrow>
        (\<exists>d. fst (DataSource_Read c data (s, log)) = Inr d \<and> d_permissions d = d_permissions data)"
    by (simp add: DataSource_Read_listed fill_model_def)
  ultimately show ?thesis by blast
qed

theorem null_propagation_witness:
  "r_permissions null_plan = Null
   \<and> snd (snd (Create (fixed_Client (Inr group_without_permissions) (Inr group_without_permissions)
                         (Inr group_without_permissions) (Inr [some_Group, ops_Group]))
                 null_plan ((), [])))
     = [CallCreate (Group_zero\<lparr>Name := ''eng''\<rparr>), CallUpdate ''g1'' (Group_zero\<lparr>Name := ''eng''\<rparr>)]
   \<and> Permissions (Group_zero\<lparr>Name := ''eng''\<rparr>) = None
   \<and> snd (snd (Update (fixed_Client (Inr group_without_permissions) (Inr group_without_permissions)
                         (Inr group_without_permissions) (Inr [some_Group, ops_Group]))
                 null_plan ((), [])))
     = [CallUpdate ''g1'' (Group_zero\<lparr>Name := ''eng''\<rparr>)]
   \<and> map_sum id r_permissions
        (fst (Read (fixed_Client (Inr group_without_permissions) (Inr group_without_permissions)
                      (Inr group_without_permissions) (Inr [some_Group, ops_Group]))
                null_plan ((), []))) = Inr Null
   \<and> Permissions ops_Group = None
   \<and> map_sum id d_permissions
        (fst (DataSource_Read (fixed_Client (Inr group_without_permissions) (Inr group_without_permissions)
                      (Inr group_without_permissions) (Inr [some_Group, ops_Group]))
                some_query ((), []))) = Inr Null"
  using null_propagation [where plan = null_plan and state = null_plan
      and c = "fixed_Client (Inr group_without_permissions) (Inr group_without_permissions)
         (Inr group_without_permissions) (Inr [some_Group, ops_Group])"
      and s = "()" and s' = "()" and s'' = "()" and log = "[]"
      and g = group_without_permissions and gs = "[some_Group, ops_Group]"
      and data = some_query and h = ops_Group]
  by (simp add: example_defs operation_defs plan_Permissions_def)

text \<open>
  The claim as the specification states it fails for the resource: the remote group has
  no permissions, the prior state has some, and the state that Read produces still has
  them.
\<close>

theorem null_propagation_counterexample:
  "Permissions group_without_permissions = None
   \<and> map_sum id r_permissions
       (fst (Read (fixed_Client (Inr some_Group) (Inr some_Group)
                     (Inr group_without_permissions) (Inr []))
               stale_state ((), [])))
     = Inr (Known (toConfig some_Permissions))
   \<and> Known (toConfig some_Permissions) \<noteq> Null"
  by (simp add: Read_def client_Get_def fixed_Client_def stale_state_def
      group_without_permissions_def)

section \<open>Create\<close>

lemma ElementsAs_Inl: "ElementsAs v = Inl d \<Longrightarrow> d = ConversionError"
  by (cases v) (auto split: if_splits)

lemma As_Workspace_Inl: "As_Workspace v = Inl d \<Longrightarrow> d = ConversionError"
  by (cases v) (auto split: if_splits)

lemma As_Chat_Inl: "As_Chat v = Inl d \<Longrightarrow> d = ConversionError"
  by (cases v) (auto split: if_splits)

lemma As_Sharing_Inl: "As_Sharing v = Inl d \<Longrightarrow> d = ConversionError"
  by (cases v) (auto split: if_splits)

lemma As_Features_Inl: "As_Features v = Inl d \<Longrightarrow> d = ConversionError"
  by (cases v) (auto split: if_splits)

lemma As_Inl: "As v = Inl d \<Longrightarrow> d = ConversionError"
  by (cases v)
     (auto split: sum.splits
           dest: As_Workspace_Inl As_Chat_Inl As_Sharing_Inl As_Features_Inl)

lemma plan_Permissions_Inl: "plan_Permissions v = Inl d \<Longrightarrow> d = ConversionError"
  by (auto simp add: plan_Permissions_def split: if_splits sum.splits dest: As_Inl)

text \<open>
  Claim C3, as amended. Create first calls the remote create with a group that has only
  the name and the description. If that call fails, Create reports
  \<open>Error creating group\<close> and issues no other call. Otherwise it converts the member
  list and the permissions of the plan; if a conversion fails (a null or unknown member
  or flag), Create reports the conversion error of the framework and issues no update.
  If both convert, it calls the remote update at the id that create returned, with the
  name, the description, the member list and the mapped permissions of the plan; if the
  update fails, Create reports \<open>Error updating group\<close>, a different error whose detail
  names the created id. In no case is there a call after the failure: the first stage
  is not rolled back.
\<close>

theorem Create_two_stage:
  "let createGroup = Group_zero\<lparr>Name := ValueString (r_name plan),
                                Description := ValueString (r_description plan)\<rparr>;
       updateGroup = Group_zero\<lparr>Name := ValueString (r_name plan),
                                Description := ValueString (r_description plan),
                                UserIDs := userIDs, Permissions := permissions\<rparr>
   in UserIDs createGroup = None \<and> Permissions createGroup = None
      \<and> (remote_Create c createGroup s = (Inl e, s') \<longrightarrow>
         Create c plan (s, log) =
           (Inl (AddError ''Error creating group'' (''Could not create group: '' @ ErrorString e)),
            (s', log @ [CallCreate createGroup])))
      \<and> (remote_Create c createGroup s = (Inr created, s')
          \<and> ElementsAs (r_user_ids plan) = Inl d \<longrightarrow>
         Create c plan (s, log) = (Inl ConversionError, (s', log @ [CallCreate createGroup])))
      \<and> (remote_Create c createGroup s = (Inr created, s')
          \<and> ElementsAs (r_user_ids plan) = Inr userIDs
          \<and> plan_Permissions (r_permissions plan) = Inl d \<longrightarrow>
         Create c plan (s, log) = (Inl ConversionError, (s', log @ [CallCreate createGroup])))
      \<and> (remote_Create c createGroup s = (Inr created, s')
          \<and> ElementsAs (r_user_ids plan) = Inr userIDs
          \<and> plan_Permissions (r_permissions plan) = Inr permissions
          \<and> remote_Update c (ID created) updateGroup s' = (Inl e, s'') \<longrightarrow>
         Create c plan (s, log) =
           (Inl (AddError ''Error updating group''
                   (''Could not update group with ID '' @ ID created @ '': '' @ ErrorString e)),
            (s'', log @ [CallCreate createGroup, CallUpdate (ID created) updateGroup])))
      \<and> (remote_Create c createGroup s = (Inr created, s')
          \<and> ElementsAs (r_user_ids plan) = Inr userIDs
          \<and> plan_Permissions (r_permissions plan) = Inr permissions
          \<and> remote_Update c (ID created) updateGroup s' = (Inr updated, s'') \<longrightarrow>
         snd (Create c plan (s, log)) =
            (s'', log @ [CallCreate createGroup, CallUpdate (ID created) updateGroup]))
      \<and> AddError ''Error creating group'' m \<noteq> AddError ''Error updating group'' m'"
proof -
  have members: "Create c plan (s, log) =
      (Inl ConversionError,
       (s', log @ [CallCreate (Group_zero\<lparr>Name := ValueString (r_name plan),
                                Description := ValueString (r_description plan)\<rparr>)]))"
    if "remote_Create c (Group_zero\<lparr>Name := ValueString (r_name plan),
                                Description := ValueString (r_description plan)\<rparr>) s
          = (Inr created, s')"
      and "ElementsAs (r_user_ids plan) = Inl d"
    using that ElementsAs_Inl [of "r_user_ids plan" d]
    by (simp add: Create_def client_Create_def Let_def)
  have flags: "Create c plan (s, log) =
      (Inl ConversionError,
       (s', log @ [CallCreate (Group_zero\<lparr>Name := ValueString (r_name plan),
                                Description := ValueString (r_description plan)\<rparr>)]))"
    if "remote_Create c (Group_zero\<lparr>Name := ValueString (r_name plan),
                                Description := ValueString (r_description plan)\<rparr>) s
          = (Inr created, s')"
      and "ElementsAs (r_user_ids plan) = Inr userIDs"
      and "plan_Permissions (r_permissions plan) = Inl d"
    using that plan_Permissions_Inl [of "r_permissions plan" d]
    by (simp add: Create_def client_Create_def Let_def)
  show ?thesis
    using members flags
    by (simp add: Create_def client_Create_def client_Update_def Let_def Group_zero_def)
qed

theorem Create_two_stage_witness:
  "Create (fixed_Client (Inl (TransportError ''refused'')) (Inr some_Group) (Inr some_Group) (Inr []))
      some_plan ((), [])
     = (Inl (AddError ''Error creating group'' ''Could not create group: refused''),
        ((), [CallCreate (Group_zero\<lparr>Name := ''eng'', Description := ''engineering''\<rparr>)]))
   \<and> Create (fixed_Client (Inr some_Group) (Inr some_Group) (Inr some_Group) (Inr []))
      plan_with_null_member ((), [])
     = (Inl ConversionError,
        ((), [CallCreate (Group_zero\<lparr>Name := ''eng'', Description := ''engineering''\<rparr>)]))
   \<and> Create (fixed_Client (Inr some_Group) (Inl (TransportError ''refused'')) (Inr some_Group) (Inr []))
      some_plan ((), [])
     = (Inl (AddError ''Error updating group'' ''Could not update group with ID g1: refused''),
        ((), [CallCreate (Group_zero\<lparr>Name := ''eng'', Description := ''engineering''\<rparr>),
              CallUpdate ''g1'' (Group_zero\<lparr>Name := ''eng'', Description := ''engineering'',
                 UserIDs := Some [''u2'', ''u1''], Permissions := Some some_Permissions\<rparr>)]))
   \<and> snd (Create (fixed_Client (Inr some_Group) (Inr some_Group) (Inr some_Group) (Inr []))
      some_plan ((), []))
     = ((), [CallCreate (Group_zero\<lparr>Name := ''eng'', Description := ''engineering''\<rparr>),
              CallUpdate ''g1'' (Group_zero\<lparr>Name := ''eng'', Description := ''engineering'',
                 UserIDs := Some [''u2'', ''u1''], Permissions := Some some_Permissions\<rparr>)])"
  using
    Create_two_stage [where plan = some_plan and s = "()" and s' = "()" and log = "[]"
      and c = "fixed_Client (Inl (TransportError ''refused'')) (Inr some_Group) (Inr some_Group) (Inr [])"
      and e = "TransportError ''refused''"]
    Create_two_stage [where plan = plan_with_null_member and s = "()" and s' = "()" and log = "[]"
      and c = "fixed_Client (Inr some_Group) (Inr some_Group) (Inr some_Group) (Inr [])"
      and created = some_Group and d = ConversionError]
    Create_two_stage [where plan = some_plan and s = "()" and s' = "()" and s'' = "()" and log = "[]"
      and c = "fixed_Client (Inr some_Group) (Inl (TransportError ''refused'')) (Inr some_Group) (Inr [])"
      and e = "TransportError ''refused''" and created = some_Group
      and userIDs = "Some [''u2'', ''u1'']" and permissions = "Some some_Permissions"]
    Create_two_stage [where plan = some_plan and s = "()" and s' = "()" and s'' = "()" and log = "[]"
      and c = "fixed_Client (Inr some_Group) (Inr some_Group) (Inr some_Group) (Inr [])"
      and created = some_Group and updated = some_Group
      and userIDs = "Some [''u2'', ''u1'']" and permissions = "Some some_Permissions"]
  by (simp add: fixed_Client_def some_plan_def plan_with_null_member_def some_Group_def
      plan_Permissions_toConfig Let_def)

text \<open>
  The claim as the specification states it fails: with a null member in the plan the
  remote create succeeds, the member list does not convert, and Create stops after that
  one call, without the update and with an error that is neither of the two stage
  errors and names no id.
\<close>

theorem Create_two_stage_counterexample:
  "Create (fixed_Client (Inr some_Group) (Inr some_Group) (Inr some_Group) (Inr []))
      plan_with_null_member ((), [])
   = (Inl ConversionError,
      ((), [CallCreate (Group_zero\<lparr>Name := ''eng'', Description := ''engineering''\<rparr>)]))"
  by (simp add: Create_def client_Create_def fixed_Client_def plan_with_null_member_def
      some_plan_def)

section \<open>A wire object that lacks a flag\<close>











section \<open>Lookup by name\<close>

text \<open>
  Claim C5. When the remote list call answers with a list of groups, the data source
  returns the first group of the list whose name equals the queried name: its id, its
  description, its time stamps, its member list and its permissions fill the model. It
  fails, with \<open>Group Not Found\<close>, exactly when no group of the list has that name.
\<close>

theorem lookup_by_name:
  assumes "remote_List c s = (Inr gs, s')" and "q = ValueString (d_name data)"
  shows "(case find (\<lambda>g. Name g = q) gs of
            None \<Rightarrow> fst (DataSource_Read c data (s, log)) =
                      Inl (AddError ''Group Not Found'' (''No group found with name: '' @ q))
          | Some g \<Rightarrow> fst (DataSource_Read c data (s, log)) =
                        Inr \<lparr>d_id = Known (ID g), d_name = d_name data,
                             d_description = Known (Description g),
                             d_user_ids = ListValueFrom (UserIDs g),
                             d_permissions = (case Permissions g of
                                                Some permissions \<Rightarrow> Known (toConfig permissions)
                                              | None \<Rightarrow> d_permissions data),
                             d_created_at = Known (CreatedAt g),
                             d_updated_at = Known (UpdatedAt g)\<rparr>)
         \<and> ((\<exists>d. fst (DataSource_Read c data (s, log)) = Inl d) \<longleftrightarrow> (\<forall>g \<in> set gs. Name g \<noteq> q))
         \<and> (\<forall>d. fst (DataSource_Read c data (s, log)) = Inl d \<longrightarrow>
               d = AddError ''Group Not Found'' (''No group found with name: '' @ q))"
proof (cases "find (\<lambda>g. Name g = q) gs")
  case None
  then have "\<forall>g \<in> set gs. Name g \<noteq> q"
    by (simp add: find_None_iff)
  with None assms show ?thesis
    by (simp add: DataSource_Read_listed)
next
  case (Some g)
  then have "g \<in> set gs" "Name g = q"
    by (auto simp add: find_Some_iff)
  then have some: "\<not> (\<forall>g \<in> set gs. Name g \<noteq> q)"
    by blast
  have "fill_model data g =
      \<lparr>d_id = Known (ID g), d_name = d_name data,
       d_description = Known (Description g),
       d_user_ids = ListValueFrom (UserIDs g),
       d_permissions = (case Permissions g of
                          Some permissions \<Rightarrow> Known (toConfig permissions)
                        | None \<Rightarrow> d_permissions data),
       d_created_at = Known (CreatedAt g),
       d_updated_at = Known (UpdatedAt g)\<rparr>"
    by (cases data) (simp add: fill_model_def Let_def split: option.splits)
  with Some some assms show ?thesis
    by (simp add: DataSource_Read_listed)
qed

theorem lookup_by_name_witness:
  "fst (DataSource_Read
          (fixed_Client (Inr some_Group) (Inr some_Group) (Inr some_Group)
             (Inr [some_Group, ops_with_permissions, ops_Group\<lparr>ID := ''g3''\<rparr>]))
          some_query ((), []))
     = Inr \<lparr>d_id = Known ''g2'', d_name = Known ''ops'', d_description = Known ''engineering'',
            d_user_ids = Known [Known ''b'', Known ''a'', Known ''b''],
            d_permissions = Known (toConfig some_Permissions),
            d_created_at = Known 100, d_updated_at = Known 200\<rparr>
   \<and> fst (DataSource_Read
             (fixed_Client (Inr some_Group) (Inr some_Group) (Inr some_Group)
                (Inr [some_Group, ops_with_permissions, ops_Group\<lparr>ID := ''g3''\<rparr>]))
             (some_query\<lparr>d_name := Known ''sales''\<rparr>) ((), []))
       = Inl (AddError ''Group Not Found'' ''No group found with name: sales'')"
proof -
  let ?gs = "[some_Group, ops_with_permissions, ops_Group\<lparr>ID := ''g3''\<rparr>]"
  let ?c = "fixed_Client (Inr some_Group) (Inr some_Group) (Inr some_Group) (Inr ?gs)"
  let ?sales = "some_query\<lparr>d_name := Known ''sales''\<rparr>"
  have listed: "remote_List ?c () = (Inr ?gs, ())"
    by (simp add: fixed_Client_def)
  have ops: "''ops'' = ValueString (d_name some_query)"
    by (simp add: some_query_def)
  have sales: "''sales'' = ValueString (d_name ?sales)"
    by simp
  have found: "find (\<lambda>g. Name g = ''ops'') ?gs = Some ops_with_permissions"
    by (simp add: some_Group_def ops_Group_def ops_with_permissions_def)
  have missing: "find (\<lambda>g. Name g = ''sales'') ?gs = None"
    by (simp add: some_Group_def ops_Group_def ops_with_permissions_def)
  have "case find (\<lambda>g. Name g = ''ops'') ?gs of
          None \<Rightarrow> fst (DataSource_Read ?c some_query ((), [])) =
                    Inl (AddError ''Group Not Found'' (''No group found with name: '' @ ''ops''))
        | Some g \<Rightarrow> fst (DataSource_Read ?c some_query ((), [])) =
                      Inr \<lparr>d_id = Known (ID g), d_name = d_name some_query,
                           d_description = Known (Description g),
                           d_user_ids = ListValueFrom (UserIDs g),
                           d_permissions = (case Permissions g of
                                              Some permissions \<Rightarrow> Known (toConfig permissions)
                                            | None \<Rightarrow> d_permissions some_query),
                           d_created_at = Known (CreatedAt g),
                           d_updated_at = Known (UpdatedAt g)\<rparr>"
    using lookup_by_name [OF listed ops, of "[]"] by (rule conjunct1)
  then have first: "fst (DataSource_Read ?c some_query ((), []))
     = Inr \<lparr>d_id = Known ''g2'', d_name = Known ''ops'', d_description = Known ''engineering'',
            d_user_ids = Known [Known ''b'', Known ''a'', Known ''b''],
            d_permissions = Known (toConfig some_Permissions),
            d_created_at = Known 100, d_updated_at = Known 200\<rparr>"
    unfolding found
    by (simp add: ops_with_permissions_def ops_Group_def some_Group_def some_query_def)
  have "case find (\<lambda>g. Name g = ''sales'') ?gs of
          None \<Rightarrow> fst (DataSource_Read ?c ?sales ((), [])) =
                    Inl (AddError ''Group Not Found'' (''No group found with name: '' @ ''sales''))
        | Some g \<Rightarrow> fst (DataSource_Read ?c ?sales ((), [])) =
                      Inr \<lparr>d_id = Known (ID g), d_name = d_name ?sales,
                           d_description = Known (Description g),
                           d_user_ids = ListValueFrom (UserIDs g),
                           d_permissions = (case Permissions g of
                                              Some permissions \<Rightarrow> Known (toConfig permissions)
                                            | None \<Rightarrow> d_permissions ?sales),
                           d_created_at = Known (CreatedAt g),
                           d_updated_at = Known (UpdatedAt g)\<rparr>"
    using lookup_by_name [OF listed sales, of "[]"] by (rule conjunct1)
  then have second: "fst (DataSource_Read ?c ?sales ((), []))
       = Inl (AddError ''Group Not Found'' ''No group found with name: sales'')"
    unfolding missing by simp
  from first second show ?thesis by simp
qed

section \<open>Update\<close>

text \<open>
  Claim C6, as amended. Update builds its payload from the plan alone. If the member
  list or the permissions of the plan do not convert (a null or unknown member or
  flag), Update reports the conversion error of the framework and sends nothing.
  Otherwise it issues exactly one remote update, at the id of the plan, with the full
  replacement payload: the name, the description, the whole member list and the whole
  mapped permissions, the 33 flags of the plan when they are present. So every call
  that Update issues carries the full payload, never a part of it; a plan that differs
  in the name only gives the same payload with the new name.
\<close>

theorem Update_full_payload:
  "(ElementsAs (r_user_ids plan) = Inl d \<longrightarrow>
      Update c plan (s, log) = (Inl ConversionError, (s, log)))
   \<and> (ElementsAs (r_user_ids plan) = Inr userIDs
       \<and> plan_Permissions (r_permissions plan) = Inl d \<longrightarrow>
      Update c plan (s, log) = (Inl ConversionError, (s, log)))
   \<and> (ElementsAs (r_user_ids plan) = Inr userIDs
       \<and> plan_Permissions (r_permissions plan) = Inr permissions \<longrightarrow>
      snd (snd (Update c plan (s, log))) =
           log @ [CallUpdate (ValueString (r_id plan))
                   (Group_zero\<lparr>Name := ValueString (r_name plan),
                               Description := ValueString (r_description plan),
                               UserIDs := userIDs, Permissions := permissions\<rparr>)]
      \<and> snd (snd (Update c (plan\<lparr>r_name := Known n\<rparr>) (s, log))) =
           log @ [CallUpdate (ValueString (r_id plan))
                   (Group_zero\<lparr>Name := n,
                               Description := ValueString (r_description plan),
                               UserIDs := userIDs, Permissions := permissions\<rparr>)]
      \<and> (\<forall>ids. r_user_ids plan = Known (map Known ids) \<longrightarrow> userIDs = Some ids)
      \<and> (\<forall>P. r_permissions plan = Known P \<and> flags_present P \<longrightarrow>
            (\<exists>W. permissions = Some W \<and> toConfig W = P)))
   \<and> (snd (snd (Update c plan (s, log))) = log
       \<or> (\<exists>u p. ElementsAs (r_user_ids plan) = Inr u
              \<and> plan_Permissions (r_permissions plan) = Inr p
              \<and> snd (snd (Update c plan (s, log))) =
                  log @ [CallUpdate (ValueString (r_id plan))
                          (Group_zero\<lparr>Name := ValueString (r_name plan),
                                      Description := ValueString (r_description plan),
                                      UserIDs := u, Permissions := p\<rparr>)]))"
proof -
  have members: "Update c plan (s, log) = (Inl ConversionError, (s, log))"
    if "ElementsAs (r_user_ids plan) = Inl d" for d
    using that ElementsAs_Inl [of "r_user_ids plan" d] by (simp add: Update_def)
  have flags: "Update c plan (s, log) = (Inl ConversionError, (s, log))"
    if "ElementsAs (r_user_ids plan) = Inr userIDs"
      and "plan_Permissions (r_permissions plan) = Inl d" for userIDs d
    using that plan_Permissions_Inl [of "r_permissions plan" d] by (simp add: Update_def)
  have sent: "snd (snd (Update c plan (s, log))) =
           log @ [CallUpdate (ValueString (r_id plan))
                   (Group_zero\<lparr>Name := ValueString (r_name plan),
                               Description := ValueString (r_description plan),
                               UserIDs := userIDs, Permissions := permissions\<rparr>)]"
    if "ElementsAs (r_user_ids plan) = Inr userIDs"
      and "plan_Permissions (r_permissions plan) = Inr permissions" for userIDs permissions
    using that by (rule Update_calls)
  have renamed: "snd (snd (Update c (plan\<lparr>r_name := Known n\<rparr>) (s, log))) =
           log @ [CallUpdate (ValueString (r_id plan))
                   (Group_zero\<lparr>Name := n,
                               Description := ValueString (r_description plan),
                               UserIDs := userIDs, Permissions := permissions\<rparr>)]"
    if "ElementsAs (r_user_ids plan) = Inr userIDs"
      and "plan_Permissions (r_permissions plan) = Inr permissions"
    using that Update_calls [of "plan\<lparr>r_name := Known n\<rparr>" userIDs permissions c s log]
    by simp
  have all_members: "userIDs = Some ids"
    if "ElementsAs (r_user_ids plan) = Inr userIDs"
      and "r_user_ids plan = Known (map Known ids)" for ids
    using that by (simp only: ElementsAs_Known) simp
  have all_flags: "\<exists>W. permissions = Some W \<and> toConfig W = P"
    if pp: "plan_Permissions (r_permissions plan) = Inr permissions"
      and kp: "r_permissions plan = Known P" and fp: "flags_present P" for P
  proof -
    obtain W where "plan_Permissions (Known P) = Inr (Some W)" "toConfig W = P"
      using flags_present_plan_Permissions [OF fp] by blast
    with pp kp show ?thesis by auto
  qed
  have total: "snd (snd (Update c plan (s, log))) = log
       \<or> (\<exists>u p. ElementsAs (r_user_ids plan) = Inr u
              \<and> plan_Permissions (r_permissions plan) = Inr p
              \<and> snd (snd (Update c plan (s, log))) =
                  log @ [CallUpdate (ValueString (r_id plan))
                          (Group_zero\<lparr>Name := ValueString (r_name plan),
                                      Description := ValueString (r_description plan),
                                      UserIDs := u, Permissions := p\<rparr>)])"
  proof (cases "ElementsAs (r_user_ids plan)")
    case (Inl d)
    then show ?thesis using members by simp
  next
    case u: (Inr u)
    show ?thesis
    proof (cases "plan_Permissions (r_permissions plan)")
      case (Inl d)
      with u show ?thesis using flags by simp
    next
      case (Inr p)
      with u sent [of u p] show ?thesis by simp
    qed
  qed
  from members flags sent renamed all_members all_flags total show ?thesis
    by blast
qed

theorem Update_full_payload_witness:
  "ElementsAs (r_user_ids stale_state) = Inr (Some [''a'', ''b''])
   \<and> plan_Permissions (r_permissions stale_state) = Inr (Some some_Permissions)
   \<and> snd (snd (Update (fixed_Client (Inr some_Group) (Inr some_Group) (Inr some_Group) (Inr []))
                  (stale_state\<lparr>r_name := Known ''platform''\<rparr>) ((), [])))
       = [CallUpdate ''g1''
            (Group_zero\<lparr>Name := ''platform'', Description := ''engineering'',
                UserIDs := Some [''a'', ''b''], Permissions := Some some_Permissions\<rparr>)]
   \<and> ElementsAs (r_user_ids plan_with_null_member) = Inl ConversionError
   \<and> Update (fixed_Client (Inr some_Group) (Inr some_Group) (Inr some_Group) (Inr []))
        plan_with_null_member ((), []) = (Inl ConversionError, ((), []))"
  using
    Update_full_payload [where plan = stale_state and userIDs = "Some [''a'', ''b'']"
      and permissions = "Some some_Permissions" and n = "''platform''" and s = "()" and log = "[]"
      and c = "fixed_Client (Inr some_Group) (Inr some_Group) (Inr some_Group) (Inr [])"]
    Update_full_payload [where plan = plan_with_null_member and d = ConversionError
      and s = "()" and log = "[]"
      and c = "fixed_Client (Inr some_Group) (Inr some_Group) (Inr some_Group) (Inr [])"]
  by (simp add: stale_state_def plan_with_null_member_def some_plan_def plan_Permissions_toConfig)

text \<open>
  The claim as the specification states it fails: with a null member in the plan Update
  sends no payload at all.
\<close>

theorem Update_full_payload_counterexample:
  "Update (fixed_Client (Inr some_Group) (Inr some_Group) (Inr some_Group) (Inr []))
      plan_with_null_member ((), [])
   = (Inl ConversionError, ((), []))"
  by (simp add: Update_def plan_with_null_member_def some_plan_def)


section \<open>Read\<close>

text \<open>
  Claim C7. When the remote get answers with a group, Read succeeds and the member list
  of the state is the member list of the group sorted ascending: the same members, each
  as often as before, in sorted order; sorting again changes nothing; a nil list gives
  the null list. Two groups that differ in the order of their members only give the
  same result.
\<close>

theorem Read_sorts_user_ids:
  assumes "remote_Get c (ValueString (r_id state)) s = (Inr g, s')"
  shows "\<exists>st. fst (Read c state (s, log)) = Inr st
          \<and> (case UserIDs g of
                None \<Rightarrow> r_user_ids st = Null
              | Some ids \<Rightarrow> r_user_ids st = Known (map Known (sort ids))
                            \<and> sorted (sort ids) \<and> mset (sort ids) = mset ids
                            \<and> sort (sort ids) = sort ids)
          \<and> (\<forall>ids ids'. UserIDs g = Some ids \<and> mset ids' = mset ids
                \<and> remote_Get c' (ValueString (r_id state)) s = (Inr (g\<lparr>UserIDs := Some ids'\<rparr>), s')
                \<longrightarrow> Read c' state (s, log) = Read c state (s, log))"
proof -
  have same: "sort ids' = sort ids" if "mset ids' = mset ids" for ids ids' :: "string list"
    using that by (simp add: properties_for_sort)
  have user_ids: "case UserIDs g of
                None \<Rightarrow> ListValueFrom (sort_Strings (UserIDs g)) = Null
              | Some ids \<Rightarrow> ListValueFrom (sort_Strings (UserIDs g)) = Known (map Known (sort ids))
                            \<and> sorted (sort ids) \<and> mset (sort ids) = mset ids
                            \<and> sort (sort ids) = sort ids"
    by (simp add: sort_Strings_def sorted_sort_id split: option.splits)
  have reordered: "Read c' state (s, log) = Read c state (s, log)"
    if "UserIDs g = Some ids" and "mset ids' = mset ids"
      and "remote_Get c' (ValueString (r_id state)) s = (Inr (g\<lparr>UserIDs := Some ids'\<rparr>), s')"
    for ids ids'
    using that assms same [of ids' ids] by (simp add: Read_got sort_Strings_def)
  have "fst (Read c state (s, log)) =
        Inr (let state2 = state\<lparr>r_name := Known (Name g), r_description := Known (Description g),
                                 r_user_ids := ListValueFrom (sort_Strings (UserIDs g))\<rparr>
              in case Permissions g of Some p \<Rightarrow> state2\<lparr>r_permissions := Known (toConfig p)\<rparr>
                 | None \<Rightarrow> state2)"
    using assms by (simp add: Read_got)
  moreover have "r_user_ids (let state2 = state\<lparr>r_name := Known (Name g), r_description := Known (Description g),
                                 r_user_ids := ListValueFrom (sort_Strings (UserIDs g))\<rparr>
              in case Permissions g of Some p \<Rightarrow> state2\<lparr>r_permissions := Known (toConfig p)\<rparr>
                 | None \<Rightarrow> state2) = ListValueFrom (sort_Strings (UserIDs g))"
    by (simp add: Let_def split: option.splits)
  ultimately show ?thesis
    using user_ids reordered by (auto split: option.splits)
qed

theorem Read_sorts_user_ids_witness:
  "UserIDs some_Group = Some [''b'', ''a'']
   \<and> map_sum id r_user_ids
       (fst (Read (fixed_Client (Inr some_Group) (Inr some_Group) (Inr some_Group) (Inr []))
               stale_state ((), [])))
     = Inr (Known [Known ''a'', Known ''b''])
   \<and> Read (fixed_Client (Inr some_Group) (Inr some_Group)
             (Inr (some_Group\<lparr>UserIDs := Some [''a'', ''b'']\<rparr>)) (Inr []))
        stale_state ((), [])
     = Read (fixed_Client (Inr some_Group) (Inr some_Group) (Inr some_Group) (Inr []))
        stale_state ((), [])"
proof -
  let ?c = "fixed_Client (Inr some_Group) (Inr some_Group) (Inr some_Group) (Inr [])"
  let ?c' = "fixed_Client (Inr some_Group) (Inr some_Group)
               (Inr (some_Group\<lparr>UserIDs := Some [''a'', ''b'']\<rparr>)) (Inr [])"
  have got: "remote_Get ?c (ValueString (r_id stale_state)) () = (Inr some_Group, ())"
    by (simp add: fixed_Client_def)
  have got': "remote_Get ?c' (ValueString (r_id stale_state)) ()
      = (Inr (some_Group\<lparr>UserIDs := Some [''a'', ''b'']\<rparr>), ())"
    by (simp add: fixed_Client_def)
  have ids: "UserIDs some_Group = Some [''b'', ''a'']"
    by (simp add: some_Group_def)
  have sorted_ids: "sort [''b'', ''a''] = [''a'', ''b'']"
    by simp
  obtain st where st: "fst (Read ?c stale_state ((), [])) = Inr st"
    and user_ids: "case UserIDs some_Group of
                None \<Rightarrow> r_user_ids st = Null
              | Some ids \<Rightarrow> r_user_ids st = Known (map Known (sort ids))
                            \<and> sorted (sort ids) \<and> mset (sort ids) = mset ids
                            \<and> sort (sort ids) = sort ids"
    and reordered: "\<forall>ids ids'. UserIDs some_Group = Some ids \<and> mset ids' = mset ids
                \<and> remote_Get ?c' (ValueString (r_id stale_state)) ()
                    = (Inr (some_Group\<lparr>UserIDs := Some ids'\<rparr>), ())
                \<longrightarrow> Read ?c' stale_state ((), []) = Read ?c stale_state ((), [])"
    using Read_sorts_user_ids [OF got, of "[]" ?c'] by blast
  have "r_user_ids st = Known [Known ''a'', Known ''b'']"
    using user_ids unfolding ids by (simp only: option.case sorted_ids) simp
  with st have first: "map_sum id r_user_ids (fst (Read ?c stale_state ((), [])))
      = Inr (Known [Known ''a'', Known ''b''])"
    by simp
  have "mset [''a'', ''b''] = mset [''b'', ''a'']"
    by simp
  with reordered ids got' have second: "Read ?c' stale_state ((), []) = Read ?c stale_state ((), [])"
    by blast
  from ids first second show ?thesis by simp
qed

text \<open>
  Claim C8, as amended. Read reports every failure of the remote get in the same way,
  a not-found error like any other: the error diagnostic \<open>Error reading group\<close>, whose
  detail carries the id and the text of the client's error, and no state. A not-found
  error can be told from another error by that text only.
\<close>

theorem Read_error_uniform:
  "remote_Get c (ValueString (r_id state)) s = (Inl err, s')
   \<Longrightarrow> Read c state (s, log) =
        (Inl (AddError ''Error reading group''
                (''Could not read group ID '' @ ValueString (r_id state) @ '': '' @ ErrorString err)),
         (s', log @ [CallGet (ValueString (r_id state))]))"
  by (simp add: Read_def client_Get_def)

theorem Read_error_uniform_witness:
  "Read (fixed_Client (Inr some_Group) (Inr some_Group) (Inl (NotFound ''404 Not Found'')) (Inr []))
      stale_state ((), [])
     = (Inl (AddError ''Error reading group'' ''Could not read group ID g1: 404 Not Found''),
        ((), [CallGet ''g1'']))"
proof -
  have "remote_Get (fixed_Client (Inr some_Group) (Inr some_Group)
                      (Inl (NotFound ''404 Not Found'')) (Inr []))
          (ValueString (r_id stale_state)) () = (Inl (NotFound ''404 Not Found''), ())"
    by (simp add: fixed_Client_def)
  from Read_error_uniform [OF this, of "[]"] show ?thesis
    by (simp add: stale_state_def)
qed

text \<open>
  The claim as the specification states it fails: a not-found error and a transport
  error with the same text give the same outcome of Read, the same diagnostic and the
  same untouched state.
\<close>

theorem Read_NotFound_counterexample:
  "Read (fixed_Client (Inr some_Group) (Inr some_Group) (Inl (NotFound ''request failed'')) (Inr []))
      stale_state ((), [])
   = Read (fixed_Client (Inr some_Group) (Inr some_Group) (Inl (TransportError ''request failed'')) (Inr []))
      stale_state ((), [])
   \<and> NotFound ''request failed'' \<noteq> TransportError ''request failed''"
  by (simp add: Read_def client_Get_def fixed_Client_def)

section \<open>The state after Create and Update\<close>

text \<open>
  Claim C9. When Create or Update succeeds, the state it writes is the plan with the id
  replaced by the id of the group that the remote update returned; every other field of
  the state is the field of the plan, whatever else the remote returned.
\<close>

theorem state_is_plan_with_id:
  "(fst (Create c plan w) = Inr st \<longrightarrow>
      (\<exists>i g s updated s'. remote_Update c i g s = (Inr updated, s')
          \<and> st = plan\<lparr>r_id := Known (ID updated)\<rparr>))
   \<and> (fst (Update c plan w) = Inr st' \<longrightarrow>
      (\<exists>i g s updated s'. remote_Update c i g s = (Inr updated, s')
          \<and> st' = plan\<lparr>r_id := Known (ID updated)\<rparr>))
   \<and> r_name (plan\<lparr>r_id := v\<rparr>) = r_name plan
   \<and> r_description (plan\<lparr>r_id := v\<rparr>) = r_description plan
   \<and> r_user_ids (plan\<lparr>r_id := v\<rparr>) = r_user_ids plan
   \<and> r_permissions (plan\<lparr>r_id := v\<rparr>) = r_permissions plan"
  using Create_Inr [of c plan w st] Update_Inr [of c plan w st'] by simp

theorem state_is_plan_with_id_witness:
  "fst (Create (fixed_Client (Inr some_Group)
                  (Inr (some_Group\<lparr>ID := ''g9'', Name := ''ENG'', UserIDs := Some [''u1'', ''u2''],
                                    Permissions := None\<rparr>))
                  (Inr some_Group) (Inr []))
          some_plan ((), []))
     = Inr (some_plan\<lparr>r_id := Known ''g9''\<rparr>)
   \<and> fst (Update (fixed_Client (Inr some_Group)
                  (Inr (some_Group\<lparr>ID := ''g9'', Name := ''ENG'', UserIDs := Some [''u1'', ''u2''],
                                    Permissions := None\<rparr>))
                  (Inr some_Group) (Inr []))
          some_plan ((), []))
     = Inr (some_plan\<lparr>r_id := Known ''g9''\<rparr>)"
  using state_is_plan_with_id [where plan = some_plan and w = "((), [])"
      and st = "some_plan\<lparr>r_id := Known ''g9''\<rparr>" and st' = "some_plan\<lparr>r_id := Known ''g9''\<rparr>"
      and c = "fixed_Client (Inr some_Group)
                  (Inr (some_Group\<lparr>ID := ''g9'', Name := ''ENG'', UserIDs := Some [''u1'', ''u2''],
                                    Permissions := None\<rparr>))
                  (Inr some_Group) (Inr [])"]
  by (simp add: Create_def Update_def client_Create_def client_Update_def fixed_Client_def
      some_plan_def plan_Permissions_toConfig)

section \<open>The member list of the data source\<close>

text \<open>
  Claim C10. The data source puts the member list of the matched group into the state
  as the remote list call returned it: the same elements in the same order, duplicates
  kept, nothing sorted (a nil list gives the null list).
\<close>

theorem DataSource_user_ids_as_listed:
  assumes "remote_List c s = (Inr gs, s')"
      and "find (\<lambda>g. Name g = ValueString (d_name data)) gs = Some g"
  shows "\<exists>d. fst (DataSource_Read c data (s, log)) = Inr d
          \<and> (case UserIDs g of None \<Rightarrow> d_user_ids d = Null
              | Some ids \<Rightarrow> d_user_ids d = Known (map Known ids))"
  using assms by (simp add: DataSource_Read_listed fill_model_def Let_def split: option.splits)

theorem DataSource_user_ids_as_listed_witness:
  "UserIDs ops_Group = Some [''b'', ''a'', ''b'']
   \<and> map_sum id d_user_ids
       (fst (DataSource_Read
               (fixed_Client (Inr some_Group) (Inr some_Group) (Inr some_Group)
                  (Inr [some_Group, ops_Group]))
               some_query ((), [])))
     = Inr (Known [Known ''b'', Known ''a'', Known ''b''])"
proof -
  let ?c = "fixed_Client (Inr some_Group) (Inr some_Group) (Inr some_Group)
              (Inr [some_Group, ops_Group])"
  have listed: "remote_List ?c () = (Inr [some_Group, ops_Group], ())"
    by (simp add: fixed_Client_def)
  have found: "find (\<lambda>g. Name g = ValueString (d_name some_query)) [some_Group, ops_Group]
      = Some ops_Group"
    by (simp add: some_query_def some_Group_def ops_Group_def)
  have ids: "UserIDs ops_Group = Some [''b'', ''a'', ''b'']"
    by (simp add: ops_Group_def some_Group_def)
  obtain d where "fst (DataSource_Read ?c some_query ((), [])) = Inr d"
    and "case UserIDs ops_Group of None \<Rightarrow> d_user_ids d = Null
         | Some ids \<Rightarrow> d_user_ids d = Known (map Known ids)"
    using DataSource_user_ids_as_listed [OF listed found, of "[]"] by blast
  then have "map_sum id d_user_ids (fst (DataSource_Read ?c some_query ((), [])))
      = Inr (Known [Known ''b'', Known ''a'', Known ''b''])"
    unfolding ids by simp
  with ids show ?thesis by simp
qed

end
